theory Spec2Isabelle
  imports Main
begin

section \<open>Python values and errors\<close>

text \<open>
  A Python \<open>str\<close> is a sequence of Unicode code points; \<open>len\<close> counts code points and
  \<open>encode('utf-8')\<close> yields one to four bytes for each of them. HOL's \<open>string\<close> is kept for
  the constant texts of the source (error details, the cache key prefix, configuration).
\<close>

type_synonym pystr = "nat list"

text \<open>
  Times are whole seconds since the epoch (the NumericDate of a token's \<open>exp\<close> claim, which
  is what the token library compares), and a \<open>timedelta\<close> is a number of seconds.
\<close>

type_synonym time = int

datatype error =
    HTTPException nat string
  | RequestValidationError
  | TypeError
  | UnicodeEncodeError
  | JSONDecodeError
  | DataError

definition HTTP_400_BAD_REQUEST :: nat where "HTTP_400_BAD_REQUEST = 400"
definition HTTP_401_UNAUTHORIZED :: nat where "HTTP_401_UNAUTHORIZED = 401"
definition HTTP_404_NOT_FOUND :: nat where "HTTP_404_NOT_FOUND = 404"
definition HTTP_413_REQUEST_ENTITY_TOO_LARGE :: nat where
  "HTTP_413_REQUEST_ENTITY_TOO_LARGE = 413"

text \<open>The status a client sees: the framework answers 422 to a body that fails its schema
  and 500 to any exception that is not an \<open>HTTPException\<close>.\<close>

fun status_code :: "error \<Rightarrow> nat" where
  "status_code (HTTPException c d) = c"
| "status_code RequestValidationError = 422"
| "status_code TypeError = 500"
| "status_code UnicodeEncodeError = 500"
| "status_code JSONDecodeError = 500"
| "status_code DataError = 500"

section \<open>Process environment\<close>

text \<open>
  \<open>dependencies.py\<close> reads the signing key, the algorithm and the default lifetime from the
  process environment once; \<open>os.getenv\<close> yields a \<open>str\<close> or \<open>None\<close>. The password context
  (bcrypt, salted), the hash function inside the token library's HMAC and the database backend
  are collaborators outside the repository: the password hash and its verification are
  parameters, so is the digest that HMAC applies to an over-long key, and so is whether the
  backend rejects a value longer than the declared length of a \<open>String(255)\<close> column. That last
  parameter tells only a backend that stores the value in full from one that refuses it; a
  backend that shortens the value is not described.
\<close>

record env =
  SECRET_KEY :: string
  ALGORITHM :: string
  ACCESS_TOKEN_EXPIRE_MINUTES :: "string option"
  pwd_hash :: "pystr \<Rightarrow> pystr \<Rightarrow> pystr"
  pwd_verify :: "pystr \<Rightarrow> pystr \<Rightarrow> bool"
  hmac_digest :: "string \<Rightarrow> string \<Rightarrow> string"
  db_enforces_length :: bool

section \<open>Signed tokens\<close>

text \<open>
  The token library is outside the repository; the model covers its HMAC algorithms, the
  process key being one shared secret. A token carries its header algorithm, its claims and a
  signature. HMAC does not use the key as given: a key longer than the block of the hash is
  replaced by its digest, and the result is filled with NUL bytes up to the block, so that keys
  with the same block sign alike (a key and the same key followed by NUL bytes, for one). A
  signature is modelled as the triple of key block, algorithm and claims it was computed from:
  the MAC is taken to be free of collisions between different key blocks. Any other bearer
  string is \<open>NotAToken\<close>.
\<close>

record claims =
  claim_sub :: "pystr option"
  claim_id :: "int option"
  claim_exp :: "time option"

text \<open>The block of SHA-256 has 64 bytes, that of SHA-384 and SHA-512 has 128.\<close>

definition hmac_block_size :: "string \<Rightarrow> nat" where
  "hmac_block_size alg = (if alg = ''HS256'' then 64 else 128)"

definition hmac_key_block :: "(string \<Rightarrow> string \<Rightarrow> string) \<Rightarrow> string \<Rightarrow> string \<Rightarrow> string" where
  "hmac_key_block digest alg key =
     (let k = (if length key > hmac_block_size alg then digest alg key else key)
      in k @ replicate (hmac_block_size alg - length k) (CHR 0x00))"

datatype signature = HMAC string string claims

datatype token = Signed string claims signature | NotAToken pystr

datatype jwt_error = JWTError | ExpiredSignatureError | JWTClaimsError

definition jwt_encode ::
  "(string \<Rightarrow> string \<Rightarrow> string) \<Rightarrow> claims \<Rightarrow> string \<Rightarrow> string \<Rightarrow> token" where
  "jwt_encode digest c key alg = Signed alg c (HMAC (hmac_key_block digest alg key) alg c)"

text \<open>Decoding verifies the signature first and the expiry second; a token is expired
  once its \<open>exp\<close> lies before the current second.\<close>

definition jwt_decode ::
  "(string \<Rightarrow> string \<Rightarrow> string) \<Rightarrow> token \<Rightarrow> string \<Rightarrow> string list \<Rightarrow> time
     \<Rightarrow> jwt_error + claims" where
  "jwt_decode digest tok key algorithms now =
     (case tok of
        NotAToken _ \<Rightarrow> Inl JWTError
      | Signed alg c sg \<Rightarrow>
          if alg \<notin> set algorithms then Inl JWTError
          else if sg \<noteq> HMAC (hmac_key_block digest alg key) alg c then Inl JWTError
          else (case claim_exp c of
                  None \<Rightarrow> Inr c
                | Some e \<Rightarrow> if e < now then Inl ExpiredSignatureError else Inr c))"

section \<open>utils/user\_utils.py\<close>

text \<open>\<open>timedelta(minutes=m)\<close> for a number \<open>m\<close>.\<close>

definition timedelta_minutes :: "int \<Rightarrow> int" where
  "timedelta_minutes m = m * 60"

text \<open>\<open>timedelta(minutes=ACCESS_TOKEN_EXPIRE_MINUTES)\<close>: the argument comes from
  \<open>os.getenv\<close>, a \<open>str\<close> or \<open>None\<close>, and \<open>timedelta\<close> raises \<open>TypeError\<close> on both.\<close>

definition timedelta_minutes_env :: "string option \<Rightarrow> error + int" where
  "timedelta_minutes_env m = Inl TypeError"

text \<open>\<open>expires_delta or timedelta(minutes=ACCESS_TOKEN_EXPIRE_MINUTES)\<close>: a \<open>timedelta\<close>
  is falsy exactly when it is zero.\<close>

definition create_access_token :: "env \<Rightarrow> pystr \<Rightarrow> int \<Rightarrow> int option \<Rightarrow> time \<Rightarrow> error + token" where
  "create_access_token e email uid expires_delta utcnow =
     (let to_encode = \<lparr>claim_sub = Some email, claim_id = Some uid, claim_exp = None\<rparr>;
          delta = (case expires_delta of
                     None \<Rightarrow> timedelta_minutes_env (ACCESS_TOKEN_EXPIRE_MINUTES e)
                   | Some d \<Rightarrow> if d \<noteq> 0 then Inr d
                              else timedelta_minutes_env (ACCESS_TOKEN_EXPIRE_MINUTES e))
      in case delta of
           Inl err \<Rightarrow> Inl err
         | Inr d \<Rightarrow>
             Inr (jwt_encode (hmac_digest e) (to_encode\<lparr>claim_exp := Some (utcnow + d)\<rparr>)
                    (SECRET_KEY e) (ALGORITHM e)))"

record current_user =
  cu_email :: pystr
  cu_id :: int

definition get_current_user :: "env \<Rightarrow> token \<Rightarrow> time \<Rightarrow> error + current_user" where
  "get_current_user e tok now =
     (case jwt_decode (hmac_digest e) tok (SECRET_KEY e) [ALGORITHM e] now of
        Inl _ \<Rightarrow> Inl (HTTPException HTTP_401_UNAUTHORIZED ''Token expired'')
      | Inr payload \<Rightarrow>
          (case claim_sub payload of
             None \<Rightarrow> Inl (HTTPException HTTP_401_UNAUTHORIZED ''Could not validate user'')
           | Some email \<Rightarrow>
               (case claim_id payload of
                  None \<Rightarrow> Inl (HTTPException HTTP_401_UNAUTHORIZED ''Could not validate user'')
                | Some uid \<Rightarrow> Inr \<lparr>cu_email = email, cu_id = uid\<rparr>)))"

section \<open>Text, UTF-8 and the request schemas\<close>

definition is_surrogate :: "nat \<Rightarrow> bool" where
  "is_surrogate c = (55296 \<le> c \<and> c \<le> 57343)"

definition utf8_encode_cp :: "nat \<Rightarrow> nat list" where
  "utf8_encode_cp c =
     (if c < 128 then [c]
      else if c < 2048 then [192 + c div 64, 128 + c mod 64]
      else if c < 65536 then [224 + c div 4096, 128 + (c div 64) mod 64, 128 + c mod 64]
      else [240 + c div 262144, 128 + (c div 4096) mod 64,
            128 + (c div 64) mod 64, 128 + c mod 64])"

text \<open>\<open>s.encode('utf-8')\<close>: a lone surrogate cannot be encoded.\<close>

definition str_encode_utf8 :: "pystr \<Rightarrow> error + nat list" where
  "str_encode_utf8 s =
     (if list_ex is_surrogate s then Inl UnicodeEncodeError
      else Inr (concat (map utf8_encode_cp s)))"

fun str_nat :: "nat \<Rightarrow> string" where
  "str_nat n =
     (if n < 10 then [char_of (48 + n)]
      else str_nat (n div 10) @ [char_of (48 + n mod 10)])"

declare str_nat.simps [simp del]

text \<open>\<open>str(i)\<close> for a Python \<open>int\<close>, as an f-string formats it.\<close>

definition str_int :: "int \<Rightarrow> string" where
  "str_int i = (if i < 0 then CHR ''-'' # str_nat (nat (- i)) else str_nat (nat i))"

text \<open>Reading a decimal numeral back, as \<open>int(s)\<close> does: the check that \<open>str_int\<close> writes
  the number and nothing else.\<close>

definition decimal_nat :: "string \<Rightarrow> nat" where
  "decimal_nat s = foldl (\<lambda>a c. 10 * a + (of_char c - 48)) 0 s"

definition decimal_int :: "string \<Rightarrow> int" where
  "decimal_int s =
     (case s of
        [] \<Rightarrow> 0
      | c # r \<Rightarrow> if c = CHR ''-'' then - int (decimal_nat r) else int (decimal_nat s))"

definition MAX_SIZE :: nat where
  "MAX_SIZE = 1048576"

record PostCreateSchema =
  schema_text :: pystr

text \<open>\<open>text: str = Field(..., max_length=1_048_576)\<close>: the schema bounds the number of
  characters; the framework rejects a body that fails it before the handler runs.\<close>

definition validate_PostCreateSchema :: "pystr \<Rightarrow> error + PostCreateSchema" where
  "validate_PostCreateSchema t =
     (if length t > 1048576 then Inl RequestValidationError
      else Inr \<lparr>schema_text = t\<rparr>)"

record UserRegisterModel =
  reg_email :: pystr
  reg_password :: pystr

record UserLoginModel =
  login_email :: pystr
  login_password :: pystr

record Token =
  access_token :: token
  token_type :: string

record PostCreated =
  PostID :: int
  detail :: string

section \<open>The store and the cache\<close>

record UserModel =
  user_id :: int
  user_email :: pystr
  user_password_hash :: pystr

record PostModel =
  post_id :: int
  post_text :: pystr
  post_user_id :: int

text \<open>
  \<open>json.dumps\<close> and \<open>json.loads\<close> are the standard library's. A cached string is either
  the serialisation of a JSON value, which \<open>json.loads\<close> gives back, or some other text,
  on which \<open>json.loads\<close> raises.
\<close>

datatype json = JInt int | JStr pystr | JList "json list" | JObject "(string \<times> json) list"

datatype redis_str = JsonText json | OtherText pystr

definition json_dumps :: "json \<Rightarrow> redis_str" where
  "json_dumps j = JsonText j"

definition json_loads :: "redis_str \<Rightarrow> error + json" where
  "json_loads v = (case v of JsonText j \<Rightarrow> Inr j | OtherText _ \<Rightarrow> Inl JSONDecodeError)"

text \<open>Truth value of a \<open>str\<close>: the empty string is falsy; a serialisation is never empty.\<close>

definition str_truthy :: "redis_str \<Rightarrow> bool" where
  "str_truthy v = (case v of JsonText _ \<Rightarrow> True | OtherText t \<Rightarrow> t \<noteq> [])"

text \<open>
  The state behind the handlers: the two tables with the counters that hand out primary
  keys, and the cache, whose entries carry the second at which they expire.
\<close>

record state =
  users :: "UserModel list"
  posts :: "PostModel list"
  user_seq :: int
  post_seq :: int
  redis :: "string \<Rightarrow> (redis_str \<times> time) option"

definition init_state :: state where
  "init_state = \<lparr>users = [], posts = [], user_seq = 1, post_seq = 1, redis = Map.empty\<rparr>"

definition redis_get :: "(string \<Rightarrow> (redis_str \<times> time) option) \<Rightarrow> string \<Rightarrow> time \<Rightarrow> redis_str option" where
  "redis_get r k now =
     (case r k of
        None \<Rightarrow> None
      | Some (v, expires_at) \<Rightarrow> if now < expires_at then Some v else None)"

definition redis_set ::
  "(string \<Rightarrow> (redis_str \<times> time) option) \<Rightarrow> string \<Rightarrow> redis_str \<Rightarrow> int \<Rightarrow> time
     \<Rightarrow> (string \<Rightarrow> (redis_str \<times> time) option)" where
  "redis_set r k v ex now = r(k \<mapsto> (v, now + ex))"

text \<open>A \<open>String(255)\<close> column: a backend that enforces the declared length refuses a longer
  value when the transaction commits.\<close>

definition fits_String_255 :: "env \<Rightarrow> pystr \<Rightarrow> bool" where
  "fits_String_255 e s = (\<not> db_enforces_length e \<or> length s \<le> 255)"

text \<open>\<open>db.add(user); db.commit(); db.refresh(user)\<close>.\<close>

definition insert_user :: "env \<Rightarrow> pystr \<Rightarrow> pystr \<Rightarrow> state \<Rightarrow> error + (UserModel \<times> state)" where
  "insert_user e email hash s =
     (if \<not> (fits_String_255 e email \<and> fits_String_255 e hash) then Inl DataError
      else
        let user = \<lparr>user_id = user_seq s, user_email = email, user_password_hash = hash\<rparr>
        in Inr (user, s\<lparr>users := users s @ [user], user_seq := user_seq s + 1\<rparr>))"

text \<open>\<open>db.add(post); db.commit(); db.refresh(post)\<close>.\<close>

definition insert_post :: "env \<Rightarrow> pystr \<Rightarrow> int \<Rightarrow> state \<Rightarrow> error + (PostModel \<times> state)" where
  "insert_post e txt uid s =
     (if \<not> fits_String_255 e txt then Inl DataError
      else
        let post = \<lparr>post_id = post_seq s, post_text = txt, post_user_id = uid\<rparr>
        in Inr (post, s\<lparr>posts := posts s @ [post], post_seq := post_seq s + 1\<rparr>))"

section \<open>utils/user\_utils.py: authentication\<close>

text \<open>\<open>db.query(UserModel).filter(UserModel.email == email).first()\<close> is the first row
  with that email; the function returns \<open>False\<close> (here \<open>None\<close>) or the user.\<close>

definition authenticate_user :: "env \<Rightarrow> pystr \<Rightarrow> pystr \<Rightarrow> state \<Rightarrow> UserModel option" where
  "authenticate_user e email password s =
     (case find (\<lambda>u. user_email u = email) (users s) of
        None \<Rightarrow> None
      | Some user \<Rightarrow>
          if \<not> pwd_verify e password (user_password_hash user) then None
          else Some user)"

section \<open>endpoints/users\_endpoints.py\<close>

definition register_user ::
  "env \<Rightarrow> UserRegisterModel \<Rightarrow> pystr \<Rightarrow> time \<Rightarrow> state \<Rightarrow> (error + Token) \<times> state" where
  "register_user e user_data salt utcnow s =
     (if find (\<lambda>u. user_email u = reg_email user_data) (users s) \<noteq> None
      then (Inl (HTTPException HTTP_400_BAD_REQUEST ''User already exists''), s)
      else
        case insert_user e (reg_email user_data)
               (pwd_hash e salt (reg_password user_data)) s of
          Inl err \<Rightarrow> (Inl err, s)
        | Inr (user, s') \<Rightarrow>
            (case create_access_token e (user_email user) (user_id user)
                    (Some (timedelta_minutes 20)) utcnow of
               Inl err \<Rightarrow> (Inl err, s')
             | Inr tok \<Rightarrow> (Inr \<lparr>access_token = tok, token_type = ''bearer''\<rparr>, s')))"

definition login_user ::
  "env \<Rightarrow> UserLoginModel \<Rightarrow> time \<Rightarrow> state \<Rightarrow> (error + Token) \<times> state" where
  "login_user e user_data utcnow s =
     (case authenticate_user e (login_email user_data) (login_password user_data) s of
        None \<Rightarrow> (Inl (HTTPException HTTP_404_NOT_FOUND ''User not found''), s)
      | Some user \<Rightarrow>
          (case create_access_token e (user_email user) (user_id user)
                  (Some (timedelta_minutes 20)) utcnow of
             Inl err \<Rightarrow> (Inl err, s)
           | Inr tok \<Rightarrow> (Inr \<lparr>access_token = tok, token_type = ''bearer''\<rparr>, s)))"

section \<open>endpoints/posts\_endpoints.py\<close>

text \<open>The handlers receive the value of the \<open>user\<close> dependency; \<open>None\<close> stands for a falsy
  one, which they answer with 401.\<close>

definition add_post ::
  "env \<Rightarrow> PostCreateSchema \<Rightarrow> current_user option \<Rightarrow> state \<Rightarrow> (error + PostCreated) \<times> state" where
  "add_post e post_data user s =
     (case user of
        None \<Rightarrow> (Inl (HTTPException HTTP_401_UNAUTHORIZED ''Unauthorized''), s)
      | Some u \<Rightarrow>
          (case str_encode_utf8 (schema_text post_data) of
             Inl err \<Rightarrow> (Inl err, s)
           | Inr bytes \<Rightarrow>
               if length bytes > MAX_SIZE
               then (Inl (HTTPException HTTP_413_REQUEST_ENTITY_TOO_LARGE
                            ''Text exceeds 1MB size limit.''), s)
               else
                 (case insert_post e (schema_text post_data) (cu_id u) s of
                    Inl err \<Rightarrow> (Inl err, s)
                  | Inr (post, s') \<Rightarrow>
                      (Inr \<lparr>PostID = post_id post, detail = ''Post created''\<rparr>, s'))))"

definition cache_key :: "int \<Rightarrow> string" where
  "cache_key uid = ''post_user'' @ str_int uid"

definition posts_data :: "PostModel list \<Rightarrow> json" where
  "posts_data ps =
     JList (map (\<lambda>c. JObject [(''id'', JInt (post_id c)), (''name'', JStr (post_text c))]) ps)"

definition get_posts ::
  "current_user option \<Rightarrow> time \<Rightarrow> state \<Rightarrow> (error + PostModel list) \<times> state" where
  "get_posts user now s =
     (case user of
        None \<Rightarrow> (Inl (HTTPException HTTP_401_UNAUTHORIZED ''Unauthorized''), s)
      | Some u \<Rightarrow>
          let uid = cu_id u;
              key = cache_key uid;
              cached_data = redis_get (redis s) key now;
              hit = (case cached_data of None \<Rightarrow> False | Some v \<Rightarrow> str_truthy v);
              owned = filter (\<lambda>p. post_user_id p = cu_id u) (posts s)
          in
            if hit then
              (case json_loads (the cached_data) of
                 Inl err \<Rightarrow> (Inl err, s)
               | Inr cached_posts \<Rightarrow> (Inr owned, s))
            else
              (Inr owned,
               s\<lparr>redis := redis_set (redis s) key (json_dumps (posts_data (posts s))) 5 now\<rparr>))"

text \<open>\<open>db.delete(post)\<close> removes the row with the primary key of the row found.\<close>

definition delete_post ::
  "int \<Rightarrow> current_user option \<Rightarrow> state \<Rightarrow> (error + unit) \<times> state" where
  "delete_post pid user s =
     (case user of
        None \<Rightarrow> (Inl (HTTPException HTTP_401_UNAUTHORIZED ''Unauthorized''), s)
      | Some u \<Rightarrow>
          (case find (\<lambda>p. post_id p = pid \<and> post_user_id p = cu_id u) (posts s) of
             None \<Rightarrow> (Inl (HTTPException HTTP_404_NOT_FOUND ''Post not found''), s)
           | Some post \<Rightarrow>
               (Inr (), s\<lparr>posts := filter (\<lambda>p. post_id p \<noteq> post_id post) (posts s)\<rparr>)))"

section \<open>Routes\<close>

text \<open>
  A route resolves the \<open>user\<close> dependency with \<open>get_current_user\<close>, whose exception ends
  the request, then validates the body against its schema, then runs the handler.
\<close>

definition add_post_route ::
  "env \<Rightarrow> token \<Rightarrow> pystr \<Rightarrow> time \<Rightarrow> state \<Rightarrow> (error + PostCreated) \<times> state" where
  "add_post_route e tok body now s =
     (case get_current_user e tok now of
        Inl err \<Rightarrow> (Inl err, s)
      | Inr u \<Rightarrow>
          (case validate_PostCreateSchema body of
             Inl err \<Rightarrow> (Inl err, s)
           | Inr post_data \<Rightarrow> add_post e post_data (Some u) s))"

definition get_posts_route ::
  "env \<Rightarrow> token \<Rightarrow> time \<Rightarrow> state \<Rightarrow> (error + PostModel list) \<times> state" where
  "get_posts_route e tok now s =
     (case get_current_user e tok now of
        Inl err \<Rightarrow> (Inl err, s)
      | Inr u \<Rightarrow> get_posts (Some u) now s)"

definition delete_post_route ::
  "env \<Rightarrow> token \<Rightarrow> int \<Rightarrow> time \<Rightarrow> state \<Rightarrow> (error + unit) \<times> state" where
  "delete_post_route e tok pid now s =
     (case get_current_user e tok now of
        Inl err \<Rightarrow> (Inl err, s)
      | Inr u \<Rightarrow> delete_post pid (Some u) s)"

text \<open>The requests a client can send, and the states the service reaches from the empty
  store and cache by serving them.\<close>

datatype request =
    Register UserRegisterModel pystr
  | Login UserLoginModel
  | AddPost token pystr
  | GetPosts token
  | DeletePost token int

fun serve :: "env \<Rightarrow> request \<Rightarrow> time \<Rightarrow> state \<Rightarrow> state" where
  "serve e (Register user_data salt) now s = snd (register_user e user_data salt now s)"
| "serve e (Login user_data) now s = snd (login_user e user_data now s)"
| "serve e (AddPost tok body) now s = snd (add_post_route e tok body now s)"
| "serve e (GetPosts tok) now s = snd (get_posts_route e tok now s)"
| "serve e (DeletePost tok pid) now s = snd (delete_post_route e tok pid now s)"

inductive reachable :: "env \<Rightarrow> state \<Rightarrow> bool" for e :: env where
  reachable_init: "reachable e init_state"
| reachable_serve: "reachable e s \<Longrightarrow> reachable e (serve e req now s)"

definition cache_decodable :: "state \<Rightarrow> bool" where
  "cache_decodable s = (\<forall>k v t. redis s k = Some (v, t) \<longrightarrow> (\<exists>j. v = JsonText j))"

section \<open>A concrete run\<close>

text \<open>
  A concrete environment with a toy password hash, the token a registration at second 0
  issues to the first user, and the state after that user registers, adds the post \<open>hi\<close>
  at second 5 and lists the posts at second 10, which fills the cache until second 15; and a
  store with the posts of two users and an empty cache.
\<close>

definition example_env :: env where
  "example_env = \<lparr>SECRET_KEY = ''secret'', ALGORITHM = ''HS256'',
     ACCESS_TOKEN_EXPIRE_MINUTES = Some ''30'',
     pwd_hash = (\<lambda>salt pw. salt @ rev pw),
     pwd_verify = (\<lambda>pw h. drop (length h - length pw) h = rev pw),
     hmac_digest = (\<lambda>alg key. take 32 (rev key)),
     db_enforces_length = False\<rparr>"

definition example_user :: current_user where
  "example_user = \<lparr>cu_email = [97, 64, 120], cu_id = 1\<rparr>"

definition example_token :: token where
  "example_token = jwt_encode (hmac_digest example_env) \<lparr>claim_sub = Some [97, 64, 120], claim_id = Some 1, claim_exp = Some 1200\<rparr>
     ''secret'' ''HS256''"

definition example_state :: state where
  "example_state =
     serve example_env (GetPosts example_token) 10
       (serve example_env (AddPost example_token [104, 105]) 5
          (serve example_env (Register \<lparr>reg_email = [97, 64, 120], reg_password = [112, 119]\<rparr> [115]) 0
             init_state))"

definition two_user_state :: state where
  "two_user_state =
     \<lparr>users = [\<lparr>user_id = 1, user_email = [97, 64, 120], user_password_hash = [115, 119, 112]\<rparr>,
               \<lparr>user_id = 2, user_email = [98, 64, 120], user_password_hash = [116, 122]\<rparr>],
      posts = [\<lparr>post_id = 1, post_text = [104, 105], post_user_id = 1\<rparr>,
               \<lparr>post_id = 2, post_text = [121, 111], post_user_id = 2\<rparr>,
               \<lparr>post_id = 3, post_text = [111, 107], post_user_id = 1\<rparr>],
      user_seq = 3, post_seq = 4, redis = Map.empty\<rparr>"

section \<open>Auxiliary facts\<close>

lemma find_SomeD: "find P xs = Some x \<Longrightarrow> x \<in> set xs \<and> P x"
  by (induction xs) (auto split: if_splits)

lemma find_None_set: "(find P xs = None) = (\<forall>x\<in>set xs. \<not> P x)"
  by (induction xs) auto

lemma create_access_token_Some:
  "d \<noteq> 0 \<Longrightarrow> create_access_token e email uid (Some d) now
     = Inr (jwt_encode (hmac_digest e) \<lparr>claim_sub = Some email, claim_id = Some uid, claim_exp = Some (now + d)\<rparr>
              (SECRET_KEY e) (ALGORITHM e))"
  by (simp add: create_access_token_def)

lemma get_current_user_expired:
  "ex < t \<Longrightarrow> get_current_user e (jwt_encode (hmac_digest e) \<lparr>claim_sub = sb, claim_id = i, claim_exp = Some ex\<rparr>
      (SECRET_KEY e) (ALGORITHM e)) t = Inl (HTTPException HTTP_401_UNAUTHORIZED ''Token expired'')"
  by (simp add: get_current_user_def jwt_decode_def jwt_encode_def)

lemma redis_register_user: "redis (snd (register_user e d salt now s)) = redis s"
  by (simp add: register_user_def insert_user_def Let_def split: sum.splits prod.splits)

lemma redis_login_user: "redis (snd (login_user e d now s)) = redis s"
  by (simp add: login_user_def split: option.splits sum.splits)

lemma redis_add_post: "redis (snd (add_post e pd user s)) = redis s"
  by (simp add: add_post_def insert_post_def Let_def split: option.splits sum.splits prod.splits)

lemma redis_delete_post: "redis (snd (delete_post pid user s)) = redis s"
  by (simp add: delete_post_def split: option.splits)

lemma redis_add_post_route: "redis (snd (add_post_route e tok body now s)) = redis s"
  by (simp add: add_post_route_def redis_add_post split: sum.splits)

lemma redis_delete_post_route: "redis (snd (delete_post_route e tok pid now s)) = redis s"
  by (simp add: delete_post_route_def redis_delete_post split: sum.splits)

lemma cache_decodable_redis: "redis s' = redis s \<Longrightarrow> cache_decodable s \<Longrightarrow> cache_decodable s'"
  by (simp add: cache_decodable_def)

lemma cache_decodable_get_posts:
  "cache_decodable s \<Longrightarrow> cache_decodable (snd (get_posts user now s))"
  by (auto simp: get_posts_def Let_def cache_decodable_def redis_set_def json_dumps_def
      split: option.splits sum.splits if_splits)

lemma cache_decodable_serve: "cache_decodable s \<Longrightarrow> cache_decodable (serve e req now s)"
proof (cases req)
  case (Register d salt)
  then show "cache_decodable s \<Longrightarrow> ?thesis"
    by (simp add: cache_decodable_redis[OF redis_register_user])
next
  case (Login d)
  then show "cache_decodable s \<Longrightarrow> ?thesis"
    by (simp add: cache_decodable_redis[OF redis_login_user])
next
  case (AddPost tok body)
  then show "cache_decodable s \<Longrightarrow> ?thesis"
    by (simp add: cache_decodable_redis[OF redis_add_post_route])
next
  case (GetPosts tok)
  then show "cache_decodable s \<Longrightarrow> ?thesis"
    by (simp add: get_posts_route_def cache_decodable_get_posts split: sum.splits)
next
  case (DeletePost tok pid)
  then show "cache_decodable s \<Longrightarrow> ?thesis"
    by (simp add: cache_decodable_redis[OF redis_delete_post_route])
qed

lemma reachable_cache_decodable: "reachable e s \<Longrightarrow> cache_decodable s"
proof (induction rule: reachable.induct)
  case reachable_init
  show ?case by (simp add: cache_decodable_def init_state_def)
next
  case (reachable_serve s req now)
  then show ?case by (simp add: cache_decodable_serve)
qed

lemma get_posts_decodable:
  assumes "cache_decodable s"
  shows "fst (get_posts (Some u) now s) = Inr (filter (\<lambda>p. post_user_id p = cu_id u) (posts s))"
proof (cases "redis_get (redis s) (cache_key (cu_id u)) now")
  case None
  then show ?thesis by (simp add: get_posts_def Let_def)
next
  case (Some v)
  then obtain t where "redis s (cache_key (cu_id u)) = Some (v, t)"
    by (auto simp: redis_get_def split: option.splits prod.splits if_splits)
  with assms obtain j where "v = JsonText j"
    by (auto simp: cache_decodable_def)
  with Some show ?thesis
    by (simp add: get_posts_def Let_def json_loads_def str_truthy_def)
qed

lemma utf8_encode_cp_nonempty: "1 \<le> length (utf8_encode_cp c)"
  by (simp add: utf8_encode_cp_def)

lemma length_le_utf8: "length t \<le> length (concat (map utf8_encode_cp t))"
proof (induction t)
  case Nil
  show ?case by simp
next
  case (Cons c t)
  then show ?case using utf8_encode_cp_nonempty[of c] by simp
qed

lemma length_utf8_replicate:
  "length (concat (map utf8_encode_cp (replicate n c))) = n * length (utf8_encode_cp c)"
  by (simp add: length_concat sum_list_replicate)

lemma no_surrogate_replicate: "\<not> is_surrogate c \<Longrightarrow> \<not> list_ex is_surrogate (replicate n c)"
  by (simp add: list_ex_iff)

lemma hmac_key_block_pad:
  "length key + n \<le> hmac_block_size alg \<Longrightarrow>
     hmac_key_block digest alg (key @ replicate n (CHR 0x00)) = hmac_key_block digest alg key"
  by (simp add: hmac_key_block_def Let_def replicate_add[symmetric])

lemma decimal_nat_snoc: "decimal_nat (s @ [c]) = 10 * decimal_nat s + (of_char c - 48)"
  by (simp add: decimal_nat_def)

lemma decimal_nat_str_nat: "decimal_nat (str_nat n) = n"
proof (induction n rule: str_nat.induct)
  case (1 n)
  show ?case
  proof (cases "n < 10")
    case True
    then have "(48 + n) mod 256 = 48 + n" by simp
    with True show ?thesis by (simp add: str_nat.simps[of n] decimal_nat_def)
  next
    case False
    have "(48 + n mod 10) mod 256 = 48 + n mod 10" by simp
    with False 1 show ?thesis by (simp add: str_nat.simps[of n] decimal_nat_snoc)
  qed
qed

lemma digit_not_minus: "(d::nat) < 10 \<Longrightarrow> char_of (48 + d) \<noteq> CHR ''-''"
proof
  assume d: "d < 10" and eq: "char_of (48 + d) = CHR ''-''"
  from eq have "of_char (char_of (48 + d)) = (of_char (CHR ''-'') :: nat)" by simp
  moreover from d have "(48 + d) mod 256 = 48 + d" by simp
  ultimately show False by simp
qed

lemma str_nat_no_minus: "str_nat n \<noteq> [] \<and> hd (str_nat n) \<noteq> CHR ''-''"
proof (induction n rule: str_nat.induct)
  case (1 n)
  show ?case
  proof (cases "n < 10")
    case True
    then show ?thesis by (simp add: str_nat.simps[of n] digit_not_minus)
  next
    case False
    with 1 show ?thesis by (simp add: str_nat.simps[of n])
  qed
qed

lemma decimal_int_str_int: "decimal_int (str_int i) = i"
proof (cases "i < 0")
  case True
  then show ?thesis by (simp add: str_int_def decimal_int_def decimal_nat_str_nat)
next
  case False
  obtain c r where cr: "str_nat (nat i) = c # r" and c: "c \<noteq> CHR ''-''"
    using str_nat_no_minus[of "nat i"] by (cases "str_nat (nat i)") auto
  have "decimal_nat (c # r) = nat i" using decimal_nat_str_nat[of "nat i"] cr by simp
  with False cr c show ?thesis by (simp add: str_int_def decimal_int_def)
qed

lemma str_int_inject:
  assumes "str_int i = str_int j"
  shows "i = j"
proof -
  have "i = decimal_int (str_int i)" by (simp only: decimal_int_str_int)
  also have "\<dots> = decimal_int (str_int j)" by (simp only: assms)
  also have "\<dots> = j" by (rule decimal_int_str_int)
  finally show ?thesis .
qed

lemma example_auth: "t \<le> 1200 \<Longrightarrow> get_current_user example_env example_token t = Inr example_user"
  by (simp add: get_current_user_def jwt_decode_def jwt_encode_def example_env_def example_token_def
      example_user_def)

lemma example_state_eq:
  "example_state = \<lparr>users = [\<lparr>user_id = 1, user_email = [97, 64, 120], user_password_hash = [115, 119, 112]\<rparr>],
      posts = [\<lparr>post_id = 1, post_text = [104, 105], post_user_id = 1\<rparr>],
      user_seq = 2, post_seq = 2,
      redis = Map.empty(cache_key 1 \<mapsto>
        (JsonText (JList [JObject [(''id'', JInt 1), (''name'', JStr [104, 105])]]), 15))\<rparr>"
  by (simp add: example_state_def example_auth add_post_route_def get_posts_route_def
      validate_PostCreateSchema_def add_post_def get_posts_def register_user_def insert_user_def
      insert_post_def str_encode_utf8_def is_surrogate_def utf8_encode_cp_def MAX_SIZE_def
      fits_String_255_def create_access_token_def timedelta_minutes_def init_state_def Let_def
      example_user_def redis_get_def redis_set_def json_dumps_def posts_data_def)
    (simp add: example_env_def)

section \<open>The claims\<close>

text \<open>
  Claim C1. In every state the service can reach, \<open>get_posts\<close> for an authenticated user
  answers with exactly the posts whose owner id is the user's id, on a cache hit and on a
  cache miss alike: the cached value is decoded and dropped, and the answer is the same
  whatever decodable content the cache holds.
\<close>

theorem get_posts_returns_owner_posts:
  assumes "reachable e s"
  shows "fst (get_posts (Some u) now s) = Inr (filter (\<lambda>p. post_user_id p = cu_id u) (posts s))
       \<and> (get_current_user e tok now = Inr u \<longrightarrow>
            fst (get_posts_route e tok now s)
              = Inr (filter (\<lambda>p. post_user_id p = cu_id u) (posts s)))
       \<and> (\<forall>r. cache_decodable (s\<lparr>redis := r\<rparr>) \<longrightarrow>
            fst (get_posts (Some u) now (s\<lparr>redis := r\<rparr>))
              = Inr (filter (\<lambda>p. post_user_id p = cu_id u) (posts s)))"
proof -
  have d: "cache_decodable s" using assms by (rule reachable_cache_decodable)
  have 1: "fst (get_posts (Some u) now s) = Inr (filter (\<lambda>p. post_user_id p = cu_id u) (posts s))"
    using d by (rule get_posts_decodable)
  have 3: "\<And>r. cache_decodable (s\<lparr>redis := r\<rparr>) \<Longrightarrow>
            fst (get_posts (Some u) now (s\<lparr>redis := r\<rparr>))
              = Inr (filter (\<lambda>p. post_user_id p = cu_id u) (posts s))"
    using get_posts_decodable[of "s\<lparr>redis := r\<rparr>" for r] by simp
  from 1 3 show ?thesis by (simp add: get_posts_route_def)
qed

text \<open>
  C1 at the concrete run: the state is reachable, the lookup at second 11 is a cache hit,
  and the answer is the user's one post.
\<close>

theorem get_posts_returns_owner_posts_witness:
  "reachable example_env example_state
   \<and> redis_get (redis example_state) (cache_key 1) 11 \<noteq> None
   \<and> fst (get_posts (Some example_user) 11 example_state)
       = Inr [\<lparr>post_id = 1, post_text = [104, 105], post_user_id = 1\<rparr>]"
proof -
  have r: "reachable example_env example_state"
    unfolding example_state_def by (intro reachable_serve reachable_init)
  have p: "posts example_state = [\<lparr>post_id = 1, post_text = [104, 105], post_user_id = 1\<rparr>]"
    by (simp add: example_state_eq)
  have h: "redis_get (redis example_state) (cache_key 1) 11 \<noteq> None"
    by (simp add: example_state_eq redis_get_def)
  from get_posts_returns_owner_posts[OF r, of example_user 11] r p h
  show ?thesis by (simp add: example_user_def)
qed



text \<open>
  Claim C3 as stated fails: an ASCII text of 1,048,577 characters has 1,048,577 UTF-8
  bytes, and the route refuses it in the schema (\<open>max_length=1_048_576\<close>), which is a 422
  and not the handler's 413.
\<close>

theorem add_post_ascii_oversize_counterexample:
  "map_sum id length (str_encode_utf8 (replicate 1048577 97)) = Inr 1048577
   \<and> add_post_route example_env example_token (replicate 1048577 97) 0 init_state
       = (Inl RequestValidationError, init_state)
   \<and> status_code RequestValidationError \<noteq> HTTP_413_REQUEST_ENTITY_TOO_LARGE"
  by (simp add: str_encode_utf8_def no_surrogate_replicate is_surrogate_def length_utf8_replicate
      utf8_encode_cp_def add_post_route_def example_auth validate_PostCreateSchema_def
      HTTP_413_REQUEST_ENTITY_TOO_LARGE_def)

text \<open>
  Claim C3, as amended. For an authenticated caller: a text of at most 1,048,576 UTF-8
  bytes (so one of exactly 1,048,576) is stored when the backend does not enforce the declared
  column length; a text of more than 1,048,576 bytes is always refused, with 413 by the handler
  when it has at most 1,048,576 characters, and with 422 by the schema when it has more.
\<close>

theorem add_post_size_outcomes:
  assumes auth: "get_current_user e tok now = Inr u"
  shows "(\<not> list_ex is_surrogate t \<longrightarrow> length (concat (map utf8_encode_cp t)) \<le> 1048576 \<longrightarrow>
            \<not> db_enforces_length e \<longrightarrow>
            add_post_route e tok t now s
              = (Inr \<lparr>PostID = post_seq s, detail = ''Post created''\<rparr>,
                 s\<lparr>posts := posts s @ [\<lparr>post_id = post_seq s, post_text = t, post_user_id = cu_id u\<rparr>],
                   post_seq := post_seq s + 1\<rparr>))
       \<and> (\<not> list_ex is_surrogate t \<longrightarrow> 1048576 < length (concat (map utf8_encode_cp t)) \<longrightarrow>
            length t \<le> 1048576 \<longrightarrow>
            add_post_route e tok t now s
              = (Inl (HTTPException HTTP_413_REQUEST_ENTITY_TOO_LARGE ''Text exceeds 1MB size limit.''), s))
       \<and> (1048576 < length t \<longrightarrow>
            1048576 < length (concat (map utf8_encode_cp t))
            \<and> add_post_route e tok t now s = (Inl RequestValidationError, s))"
proof (intro conjI impI)
  assume ns: "\<not> list_ex is_surrogate t" and b: "length (concat (map utf8_encode_cp t)) \<le> 1048576"
    and ne: "\<not> db_enforces_length e"
  from b length_le_utf8[of t] have l: "length t \<le> 1048576" by simp
  from ns b ne l auth
  show "add_post_route e tok t now s
              = (Inr \<lparr>PostID = post_seq s, detail = ''Post created''\<rparr>,
                 s\<lparr>posts := posts s @ [\<lparr>post_id = post_seq s, post_text = t, post_user_id = cu_id u\<rparr>],
                   post_seq := post_seq s + 1\<rparr>)"
    by (simp add: add_post_route_def validate_PostCreateSchema_def add_post_def str_encode_utf8_def
        MAX_SIZE_def insert_post_def fits_String_255_def Let_def)
next
  assume ns: "\<not> list_ex is_surrogate t" and b: "1048576 < length (concat (map utf8_encode_cp t))"
    and l: "length t \<le> 1048576"
  from ns b l auth
  show "add_post_route e tok t now s
          = (Inl (HTTPException HTTP_413_REQUEST_ENTITY_TOO_LARGE ''Text exceeds 1MB size limit.''), s)"
    by (simp add: add_post_route_def validate_PostCreateSchema_def add_post_def str_encode_utf8_def
        MAX_SIZE_def)
next
  assume l: "1048576 < length t"
  with length_le_utf8[of t] show "1048576 < length (concat (map utf8_encode_cp t))" by simp
  from l auth show "add_post_route e tok t now s = (Inl RequestValidationError, s)"
    by (simp add: add_post_route_def validate_PostCreateSchema_def)
qed

text \<open>
  C3 (amended) on four texts: 1,048,576 ASCII characters are stored; 1,048,577 bytes in
  524,289 characters and 2,000,000 bytes in 1,000,000 characters get 413; 2,000,000 ASCII
  characters get 422.
\<close>

theorem add_post_size_outcomes_witness:
  "add_post_route example_env example_token (replicate 1048576 97) 0 init_state
     = (Inr \<lparr>PostID = 1, detail = ''Post created''\<rparr>,
        init_state\<lparr>posts := [\<lparr>post_id = 1, post_text = replicate 1048576 97, post_user_id = 1\<rparr>],
                   post_seq := 2\<rparr>)
   \<and> add_post_route example_env example_token (97 # replicate 524288 233) 0 init_state
     = (Inl (HTTPException HTTP_413_REQUEST_ENTITY_TOO_LARGE ''Text exceeds 1MB size limit.''), init_state)
   \<and> add_post_route example_env example_token (replicate 1000000 233) 0 init_state
     = (Inl (HTTPException HTTP_413_REQUEST_ENTITY_TOO_LARGE ''Text exceeds 1MB size limit.''), init_state)
   \<and> add_post_route example_env example_token (replicate 2000000 97) 0 init_state
     = (Inl RequestValidationError, init_state)"
proof -
  have a: "get_current_user example_env example_token 0 = Inr example_user"
    by (simp add: example_auth)
  have ne: "\<not> db_enforces_length example_env" by (simp add: example_env_def)
  have s1: "\<not> list_ex is_surrogate (replicate 1048576 97)"
    by (simp add: no_surrogate_replicate is_surrogate_def)
  have b1: "length (concat (map utf8_encode_cp (replicate 1048576 97))) \<le> 1048576"
    using length_utf8_replicate[of 1048576 97] by (simp add: utf8_encode_cp_def)
  have s2: "\<not> list_ex is_surrogate (97 # replicate 524288 233)"
    using no_surrogate_replicate[of 233 524288] by (simp add: is_surrogate_def)
  have b2: "1048576 < length (concat (map utf8_encode_cp (97 # replicate 524288 233)))"
    using length_utf8_replicate[of 524288 233] by (simp add: utf8_encode_cp_def)
  have l2: "length (97 # replicate 524288 (233::nat)) \<le> 1048576" by simp
  have s3: "\<not> list_ex is_surrogate (replicate 1000000 233)"
    by (simp add: no_surrogate_replicate is_surrogate_def)
  have b3: "1048576 < length (concat (map utf8_encode_cp (replicate 1000000 233)))"
    using length_utf8_replicate[of 1000000 233] by (simp add: utf8_encode_cp_def)
  have l3: "length (replicate 1000000 (233::nat)) \<le> 1048576" by simp
  have l4: "1048576 < length (replicate 2000000 (97::nat))" by simp
  from add_post_size_outcomes[OF a, of "replicate 1048576 97" init_state] s1 b1 ne
  have r1: "add_post_route example_env example_token (replicate 1048576 97) 0 init_state
     = (Inr \<lparr>PostID = 1, detail = ''Post created''\<rparr>,
        init_state\<lparr>posts := [\<lparr>post_id = 1, post_text = replicate 1048576 97, post_user_id = 1\<rparr>],
                   post_seq := 2\<rparr>)"
    by (simp add: init_state_def example_user_def)
  from add_post_size_outcomes[OF a, of "97 # replicate 524288 233" init_state] s2 b2 l2
  have r2: "add_post_route example_env example_token (97 # replicate 524288 233) 0 init_state
     = (Inl (HTTPException HTTP_413_REQUEST_ENTITY_TOO_LARGE ''Text exceeds 1MB size limit.''), init_state)"
    by blast
  from add_post_size_outcomes[OF a, of "replicate 1000000 233" init_state] s3 b3 l3
  have r3: "add_post_route example_env example_token (replicate 1000000 233) 0 init_state
     = (Inl (HTTPException HTTP_413_REQUEST_ENTITY_TOO_LARGE ''Text exceeds 1MB size limit.''), init_state)"
    by blast
  from add_post_size_outcomes[OF a, of "replicate 2000000 97" init_state] l4
  have r4: "add_post_route example_env example_token (replicate 2000000 97) 0 init_state
     = (Inl RequestValidationError, init_state)"
    by blast
  from r1 r2 r3 r4 show ?thesis by blast
qed

text \<open>
  Claim C4 as stated fails: a token signed with another key, not yet expired, is refused
  with the very error that an expired token of the right key gets, so the two causes are not
  told apart.
\<close>

theorem wrong_key_reported_as_expired_counterexample:
  "get_current_user example_env
      (jwt_encode (hmac_digest example_env)
         \<lparr>claim_sub = Some [97, 64, 120], claim_id = Some 1, claim_exp = Some 1200\<rparr>
         ''another key'' ''HS256'') 0
     = Inl (HTTPException HTTP_401_UNAUTHORIZED ''Token expired'')
   \<and> get_current_user example_env example_token 1201
     = Inl (HTTPException HTTP_401_UNAUTHORIZED ''Token expired'')"
  by (simp add: get_current_user_def jwt_decode_def jwt_encode_def example_env_def example_token_def
      hmac_key_block_def hmac_block_size_def)

text \<open>
  Claim C4, as amended. Every failure of \<open>get_current_user\<close> is a 401. Whatever error the
  decoder raises (a signature that does not verify, a string that is no token, a passed \<open>exp\<close>)
  becomes the one error \<open>Token expired\<close>, and a verified payload without \<open>sub\<close> or \<open>id\<close>
  becomes \<open>Could not validate user\<close>. A token signed with another key is refused, with
  \<open>Token expired\<close>, when HMAC derives another key block from that key; a key with the key
  block of the process key, such as the process key followed by NUL bytes, signs tokens that
  are treated as tokens of the process key.
\<close>

theorem get_current_user_failures:
  "(\<forall>err. get_current_user e tok now = Inl err \<longrightarrow>
        err = HTTPException HTTP_401_UNAUTHORIZED ''Token expired''
      \<or> err = HTTPException HTTP_401_UNAUTHORIZED ''Could not validate user'')
   \<and> (\<forall>je. jwt_decode (hmac_digest e) tok (SECRET_KEY e) [ALGORITHM e] now = Inl je \<longrightarrow>
        get_current_user e tok now = Inl (HTTPException HTTP_401_UNAUTHORIZED ''Token expired''))
   \<and> (\<forall>c. jwt_decode (hmac_digest e) tok (SECRET_KEY e) [ALGORITHM e] now = Inr c \<longrightarrow>
        (claim_sub c = None \<or> claim_id c = None) \<longrightarrow>
        get_current_user e tok now = Inl (HTTPException HTTP_401_UNAUTHORIZED ''Could not validate user''))
   \<and> (\<forall>c key alg.
        hmac_key_block (hmac_digest e) alg key \<noteq> hmac_key_block (hmac_digest e) alg (SECRET_KEY e) \<longrightarrow>
        get_current_user e (jwt_encode (hmac_digest e) c key alg) now
          = Inl (HTTPException HTTP_401_UNAUTHORIZED ''Token expired''))
   \<and> (\<forall>c key.
        hmac_key_block (hmac_digest e) (ALGORITHM e) key
          = hmac_key_block (hmac_digest e) (ALGORITHM e) (SECRET_KEY e) \<longrightarrow>
        get_current_user e (jwt_encode (hmac_digest e) c key (ALGORITHM e)) now
          = get_current_user e (jwt_encode (hmac_digest e) c (SECRET_KEY e) (ALGORITHM e)) now)
   \<and> (\<forall>c n. length (SECRET_KEY e) + n \<le> hmac_block_size (ALGORITHM e) \<longrightarrow>
        get_current_user e
          (jwt_encode (hmac_digest e) c (SECRET_KEY e @ replicate n (CHR 0x00)) (ALGORITHM e)) now
          = get_current_user e (jwt_encode (hmac_digest e) c (SECRET_KEY e) (ALGORITHM e)) now)"
proof (intro conjI allI impI)
  fix err assume "get_current_user e tok now = Inl err"
  then show "err = HTTPException HTTP_401_UNAUTHORIZED ''Token expired''
      \<or> err = HTTPException HTTP_401_UNAUTHORIZED ''Could not validate user''"
    by (auto simp: get_current_user_def split: sum.splits option.splits)
next
  fix je assume "jwt_decode (hmac_digest e) tok (SECRET_KEY e) [ALGORITHM e] now = Inl je"
  then show "get_current_user e tok now = Inl (HTTPException HTTP_401_UNAUTHORIZED ''Token expired'')"
    by (simp add: get_current_user_def)
next
  fix c assume "jwt_decode (hmac_digest e) tok (SECRET_KEY e) [ALGORITHM e] now = Inr c"
    and "claim_sub c = None \<or> claim_id c = None"
  then show "get_current_user e tok now
               = Inl (HTTPException HTTP_401_UNAUTHORIZED ''Could not validate user'')"
    by (auto simp: get_current_user_def split: option.splits)
next
  fix c key alg
  assume "hmac_key_block (hmac_digest e) alg key \<noteq> hmac_key_block (hmac_digest e) alg (SECRET_KEY e)"
  then show "get_current_user e (jwt_encode (hmac_digest e) c key alg) now
               = Inl (HTTPException HTTP_401_UNAUTHORIZED ''Token expired'')"
    by (auto simp: get_current_user_def jwt_decode_def jwt_encode_def)
next
  fix c key
  assume "hmac_key_block (hmac_digest e) (ALGORITHM e) key
            = hmac_key_block (hmac_digest e) (ALGORITHM e) (SECRET_KEY e)"
  then show "get_current_user e (jwt_encode (hmac_digest e) c key (ALGORITHM e)) now
               = get_current_user e (jwt_encode (hmac_digest e) c (SECRET_KEY e) (ALGORITHM e)) now"
    by (simp add: jwt_encode_def)
next
  fix c n assume "length (SECRET_KEY e) + n \<le> hmac_block_size (ALGORITHM e)"
  then show "get_current_user e
          (jwt_encode (hmac_digest e) c (SECRET_KEY e @ replicate n (CHR 0x00)) (ALGORITHM e)) now
          = get_current_user e (jwt_encode (hmac_digest e) c (SECRET_KEY e) (ALGORITHM e)) now"
    by (simp add: jwt_encode_def hmac_key_block_pad)
qed

text \<open>
  C4 (amended) on a token of another key, on an expired token, on a payload without \<open>id\<close>,
  and on a token signed with the process key followed by one NUL byte, which is accepted.
\<close>

theorem get_current_user_failures_witness:
  "get_current_user example_env
      (jwt_encode (hmac_digest example_env)
         \<lparr>claim_sub = Some [97, 64, 120], claim_id = Some 1, claim_exp = Some 1200\<rparr>
         ''another key'' ''HS256'') 0
     = Inl (HTTPException HTTP_401_UNAUTHORIZED ''Token expired'')
   \<and> jwt_decode (hmac_digest example_env) example_token (SECRET_KEY example_env)
        [ALGORITHM example_env] 1201
     = Inl ExpiredSignatureError
   \<and> get_current_user example_env example_token 1201
     = Inl (HTTPException HTTP_401_UNAUTHORIZED ''Token expired'')
   \<and> get_current_user example_env
      (jwt_encode (hmac_digest example_env)
         \<lparr>claim_sub = Some [97, 64, 120], claim_id = None, claim_exp = Some 1200\<rparr>
         ''secret'' ''HS256'') 0
     = Inl (HTTPException HTTP_401_UNAUTHORIZED ''Could not validate user'')
   \<and> get_current_user example_env
      (jwt_encode (hmac_digest example_env)
         \<lparr>claim_sub = Some [97, 64, 120], claim_id = Some 1, claim_exp = Some 1200\<rparr>
         (''secret'' @ replicate 1 (CHR 0x00)) ''HS256'') 0
     = Inr example_user"
proof -
  let ?dg = "hmac_digest example_env"
  let ?c = "\<lparr>claim_sub = Some [97, 64, 120], claim_id = Some 1, claim_exp = Some 1200\<rparr>"
  let ?m = "\<lparr>claim_sub = Some [97, 64, 120], claim_id = None, claim_exp = Some (1200::int)\<rparr>"
  have sk: "SECRET_KEY example_env = ''secret''" and al: "ALGORITHM example_env = ''HS256''"
    by (simp_all add: example_env_def)
  have k: "hmac_key_block ?dg ''HS256'' ''another key''
             \<noteq> hmac_key_block ?dg ''HS256'' (SECRET_KEY example_env)"
    by (simp add: hmac_key_block_def hmac_block_size_def sk)
  have d: "jwt_decode ?dg example_token (SECRET_KEY example_env) [ALGORITHM example_env] 1201
             = Inl ExpiredSignatureError"
    by (simp add: jwt_decode_def jwt_encode_def example_token_def sk al)
  have m: "jwt_decode ?dg (jwt_encode ?dg ?m ''secret'' ''HS256'') (SECRET_KEY example_env)
             [ALGORITHM example_env] 0 = Inr ?m"
    by (simp add: jwt_decode_def jwt_encode_def sk al)
  have n: "length (SECRET_KEY example_env) + 1 \<le> hmac_block_size (ALGORITHM example_env)"
    by (simp add: hmac_block_size_def sk al)
  have g: "get_current_user example_env (jwt_encode ?dg ?c ''secret'' ''HS256'') 0 = Inr example_user"
    using example_auth[of 0] by (simp add: example_token_def)
  from get_current_user_failures[of example_env _ 0] k
  have 1: "get_current_user example_env (jwt_encode ?dg ?c ''another key'' ''HS256'') 0
             = Inl (HTTPException HTTP_401_UNAUTHORIZED ''Token expired'')"
    by blast
  from get_current_user_failures[of example_env example_token 1201] d
  have 2: "get_current_user example_env example_token 1201
             = Inl (HTTPException HTTP_401_UNAUTHORIZED ''Token expired'')"
    by blast
  from get_current_user_failures[of example_env "jwt_encode ?dg ?m ''secret'' ''HS256''" 0] m
  have 3: "get_current_user example_env (jwt_encode ?dg ?m ''secret'' ''HS256'') 0
             = Inl (HTTPException HTTP_401_UNAUTHORIZED ''Could not validate user'')"
    by simp
  from get_current_user_failures[of example_env _ 0] n
  have "get_current_user example_env
          (jwt_encode ?dg ?c (SECRET_KEY example_env @ replicate 1 (CHR 0x00)) (ALGORITHM example_env)) 0
        = get_current_user example_env
          (jwt_encode ?dg ?c (SECRET_KEY example_env) (ALGORITHM example_env)) 0"
    by blast
  with g have 4: "get_current_user example_env
          (jwt_encode ?dg ?c (''secret'' @ replicate 1 (CHR 0x00)) ''HS256'') 0 = Inr example_user"
    by (simp add: sk al)
  from 1 d 2 3 4 show ?thesis by blast
qed

text \<open>
  Claim C5. \<open>delete_post\<close> fails with the 404 \<open>Post not found\<close> and leaves the state as it
  was whenever no post has both the given id and the caller as owner, which covers the absent
  post and the post of another user with one and the same result; and when it succeeds, such
  a post existed and the rows with that id are gone.
\<close>

theorem delete_post_not_found:
  "(\<not> (\<exists>p \<in> set (posts s). post_id p = pid \<and> post_user_id p = cu_id u)
      \<longrightarrow> delete_post pid (Some u) s = (Inl (HTTPException HTTP_404_NOT_FOUND ''Post not found''), s))
   \<and> (\<forall>s'. delete_post pid (Some u) s = (Inr (), s')
      \<longrightarrow> (\<exists>p \<in> set (posts s). post_id p = pid \<and> post_user_id p = cu_id u)
          \<and> s' = s\<lparr>posts := filter (\<lambda>p. post_id p \<noteq> pid) (posts s)\<rparr>)"
proof (intro conjI impI allI)
  assume "\<not> (\<exists>p \<in> set (posts s). post_id p = pid \<and> post_user_id p = cu_id u)"
  then have "find (\<lambda>p. post_id p = pid \<and> post_user_id p = cu_id u) (posts s) = None"
    by (simp add: find_None_set)
  then show "delete_post pid (Some u) s = (Inl (HTTPException HTTP_404_NOT_FOUND ''Post not found''), s)"
    by (simp add: delete_post_def)
next
  fix s' assume d: "delete_post pid (Some u) s = (Inr (), s')"
  then obtain p where f: "find (\<lambda>p. post_id p = pid \<and> post_user_id p = cu_id u) (posts s) = Some p"
    by (auto simp: delete_post_def split: option.splits)
  from find_SomeD[OF f] show "\<exists>p \<in> set (posts s). post_id p = pid \<and> post_user_id p = cu_id u"
    by blast
  from find_SomeD[OF f] d f show "s' = s\<lparr>posts := filter (\<lambda>p. post_id p \<noteq> pid) (posts s)\<rparr>"
    by (simp add: delete_post_def)
qed

text \<open>
  C5 at the concrete run: another user and an absent id both get the same 404, the owner
  deletes the post.
\<close>

theorem delete_post_not_found_witness:
  "delete_post 1 (Some \<lparr>cu_email = [98, 64, 120], cu_id = 2\<rparr>) example_state
     = (Inl (HTTPException HTTP_404_NOT_FOUND ''Post not found''), example_state)
   \<and> delete_post 7 (Some example_user) example_state
     = (Inl (HTTPException HTTP_404_NOT_FOUND ''Post not found''), example_state)
   \<and> delete_post 1 (Some example_user) example_state = (Inr (), example_state\<lparr>posts := []\<rparr>)
   \<and> (\<exists>p \<in> set (posts example_state). post_id p = 1 \<and> post_user_id p = cu_id example_user)"
proof -
  have p: "posts example_state = [\<lparr>post_id = 1, post_text = [104, 105], post_user_id = 1\<rparr>]"
    by (simp add: example_state_eq)
  have n1: "\<not> (\<exists>q \<in> set (posts example_state). post_id q = 1
               \<and> post_user_id q = cu_id \<lparr>cu_email = [98, 64, 120], cu_id = 2\<rparr>)"
    by (simp add: p)
  have n2: "\<not> (\<exists>q \<in> set (posts example_state). post_id q = 7 \<and> post_user_id q = cu_id example_user)"
    by (simp add: p)
  have d: "delete_post 1 (Some example_user) example_state = (Inr (), example_state\<lparr>posts := []\<rparr>)"
    by (simp add: delete_post_def p example_user_def)
  from delete_post_not_found[of example_state 1 "\<lparr>cu_email = [98, 64, 120], cu_id = 2\<rparr>"] n1
  have 1: "delete_post 1 (Some \<lparr>cu_email = [98, 64, 120], cu_id = 2\<rparr>) example_state
     = (Inl (HTTPException HTTP_404_NOT_FOUND ''Post not found''), example_state)"
    by blast
  from delete_post_not_found[of example_state 7 example_user] n2
  have 2: "delete_post 7 (Some example_user) example_state
     = (Inl (HTTPException HTTP_404_NOT_FOUND ''Post not found''), example_state)"
    by blast
  from delete_post_not_found[of example_state 1 example_user] d
  have 3: "\<exists>p \<in> set (posts example_state). post_id p = 1 \<and> post_user_id p = cu_id example_user"
    by blast
  from 1 2 d 3 show ?thesis by blast
qed

text \<open>
  Claim C6. \<open>register_user\<close> with an email the store already holds fails with the 400
  \<open>User already exists\<close> and leaves the state as it was; so after a successful registration
  any further registration of the same email fails that way.
\<close>

theorem register_conflict:
  "((\<exists>u \<in> set (users s). user_email u = reg_email d)
      \<longrightarrow> register_user e d salt now s = (Inl (HTTPException HTTP_400_BAD_REQUEST ''User already exists''), s))
   \<and> (\<forall>r s'. register_user e d salt now s = (Inr r, s') \<longrightarrow> reg_email d' = reg_email d
      \<longrightarrow> register_user e d' salt' now' s' = (Inl (HTTPException HTTP_400_BAD_REQUEST ''User already exists''), s'))"
proof (intro conjI impI allI)
  assume "\<exists>u \<in> set (users s). user_email u = reg_email d"
  then have "find (\<lambda>u. user_email u = reg_email d) (users s) \<noteq> None"
    by (simp add: find_None_set)
  then show "register_user e d salt now s = (Inl (HTTPException HTTP_400_BAD_REQUEST ''User already exists''), s)"
    by (simp add: register_user_def)
next
  fix r s' assume r: "register_user e d salt now s = (Inr r, s')" and em: "reg_email d' = reg_email d"
  from r have "\<exists>u \<in> set (users s'). user_email u = reg_email d"
    by (auto simp: register_user_def insert_user_def Let_def split: if_splits sum.splits prod.splits)
  then have "find (\<lambda>u. user_email u = reg_email d') (users s') \<noteq> None"
    by (simp add: find_None_set em)
  then show "register_user e d' salt' now' s' = (Inl (HTTPException HTTP_400_BAD_REQUEST ''User already exists''), s')"
    by (simp add: register_user_def)
qed

text \<open>
  C6 on the empty store: the first registration succeeds and the second is refused.
\<close>

theorem register_conflict_witness:
  "(\<exists>r s'. register_user example_env \<lparr>reg_email = [97, 64, 120], reg_password = [112, 119]\<rparr> [115] 0
             init_state = (Inr r, s')
        \<and> register_user example_env \<lparr>reg_email = [97, 64, 120], reg_password = [113]\<rparr> [116] 60 s'
            = (Inl (HTTPException HTTP_400_BAD_REQUEST ''User already exists''), s'))
   \<and> register_user example_env \<lparr>reg_email = [97, 64, 120], reg_password = [113]\<rparr> [116] 60 example_state
       = (Inl (HTTPException HTTP_400_BAD_REQUEST ''User already exists''), example_state)"
proof -
  obtain r s' where
    r: "register_user example_env \<lparr>reg_email = [97, 64, 120], reg_password = [112, 119]\<rparr> [115] 0
          init_state = (Inr r, s')"
    by (simp add: register_user_def insert_user_def fits_String_255_def create_access_token_def
        timedelta_minutes_def init_state_def Let_def example_env_def)
  have ex: "\<exists>u \<in> set (users example_state).
              user_email u = reg_email \<lparr>reg_email = [97, 64, 120], reg_password = [113]\<rparr>"
    by (simp add: example_state_eq)
  from register_conflict[of init_state "\<lparr>reg_email = [97, 64, 120], reg_password = [112, 119]\<rparr>"
      example_env "[115]" 0 "\<lparr>reg_email = [97, 64, 120], reg_password = [113]\<rparr>" "[116]" 60] r
  have 1: "register_user example_env \<lparr>reg_email = [97, 64, 120], reg_password = [113]\<rparr> [116] 60 s'
            = (Inl (HTTPException HTTP_400_BAD_REQUEST ''User already exists''), s')"
    by simp
  from register_conflict[of example_state "\<lparr>reg_email = [97, 64, 120], reg_password = [113]\<rparr>"
      example_env "[116]" 60] ex
  have 2: "register_user example_env \<lparr>reg_email = [97, 64, 120], reg_password = [113]\<rparr> [116] 60 example_state
       = (Inl (HTTPException HTTP_400_BAD_REQUEST ''User already exists''), example_state)"
    by blast
  from r 1 2 show ?thesis by blast
qed

text \<open>
  Claim C7. \<open>authenticate_user\<close> returns the same failure value when no user has the
  email and when the user exists but the password does not verify, and \<open>login_user\<close> turns
  both into the same 404 \<open>User not found\<close>.
\<close>

theorem authenticate_user_indistinguishable:
  assumes absent: "\<not> (\<exists>u \<in> set (users s1). user_email u = em1)"
    and wrong: "find (\<lambda>u. user_email u = em2) (users s2) = Some u2"
               "\<not> pwd_verify e pw2 (user_password_hash u2)"
  shows "authenticate_user e em1 pw1 s1 = None
       \<and> authenticate_user e em2 pw2 s2 = None
       \<and> login_user e \<lparr>login_email = em1, login_password = pw1\<rparr> now1 s1
           = (Inl (HTTPException HTTP_404_NOT_FOUND ''User not found''), s1)
       \<and> login_user e \<lparr>login_email = em2, login_password = pw2\<rparr> now2 s2
           = (Inl (HTTPException HTTP_404_NOT_FOUND ''User not found''), s2)"
proof -
  from absent have "find (\<lambda>u. user_email u = em1) (users s1) = None"
    by (simp add: find_None_set)
  then have a1: "authenticate_user e em1 pw1 s1 = None"
    by (simp add: authenticate_user_def)
  from wrong have a2: "authenticate_user e em2 pw2 s2 = None"
    by (simp add: authenticate_user_def)
  from a1 a2 show ?thesis by (simp add: login_user_def)
qed

text \<open>
  C7 with an unknown email on the empty store and a wrong password at the concrete run.
\<close>

theorem authenticate_user_indistinguishable_witness:
  "authenticate_user example_env [98, 64, 120] [112, 119] init_state = None
   \<and> authenticate_user example_env [97, 64, 120] [120] example_state = None
   \<and> login_user example_env \<lparr>login_email = [98, 64, 120], login_password = [112, 119]\<rparr> 20 init_state
       = (Inl (HTTPException HTTP_404_NOT_FOUND ''User not found''), init_state)
   \<and> login_user example_env \<lparr>login_email = [97, 64, 120], login_password = [120]\<rparr> 20 example_state
       = (Inl (HTTPException HTTP_404_NOT_FOUND ''User not found''), example_state)"
proof -
  have a: "\<not> (\<exists>u \<in> set (users init_state). user_email u = [98, 64, 120])"
    by (simp add: init_state_def)
  have f: "find (\<lambda>u. user_email u = [97, 64, 120]) (users example_state)
             = Some \<lparr>user_id = 1, user_email = [97, 64, 120], user_password_hash = [115, 119, 112]\<rparr>"
    by (simp add: example_state_eq)
  have w: "\<not> pwd_verify example_env [120]
              (user_password_hash \<lparr>user_id = 1, user_email = [97, 64, 120], user_password_hash = [115, 119, 112]\<rparr>)"
    by (simp add: example_env_def)
  from authenticate_user_indistinguishable[OF a f w, of "[112, 119]" 20 20]
  show ?thesis .
qed

text \<open>
  Claim C8. On a miss \<open>get_posts\<close> stores, under \<open>post_user\<close> followed by the decimal numeral
  of the user's id, the serialised list of one \<open>{id, name}\<close> object for every post of the store,
  whoever owns it, readable for the next 5 seconds; different users get different keys; on a hit
  it leaves the state, and so the entry, as it was; \<open>add_post\<close> and \<open>delete_post\<close> never touch
  the cache.
\<close>

theorem get_posts_cache_entry:
  "(redis_get (redis s) (''post_user'' @ str_int (cu_id u)) now = None \<longrightarrow>
      snd (get_posts (Some u) now s)
        = s\<lparr>redis := (redis s)(''post_user'' @ str_int (cu_id u)
                 \<mapsto> (JsonText (JList (map (\<lambda>c. JObject [(''id'', JInt (post_id c)),
                                                              (''name'', JStr (post_text c))])
                                          (posts s))),
                     now + 5))\<rparr>)
   \<and> (\<forall>v. redis_get (redis s) (''post_user'' @ str_int (cu_id u)) now = Some v \<longrightarrow> str_truthy v \<longrightarrow>
      snd (get_posts (Some u) now s) = s)
   \<and> (\<forall>v t. redis_get ((redis s)(''post_user'' @ str_int (cu_id u) \<mapsto> (v, now + 5)))
               (''post_user'' @ str_int (cu_id u)) t
          = (if t < now + 5 then Some v else None))
   \<and> (\<forall>i. decimal_int (str_int i) = i)
   \<and> (\<forall>i j. ''post_user'' @ str_int i = ''post_user'' @ str_int j \<longrightarrow> i = j)
   \<and> redis (snd (add_post e pd user s)) = redis s
   \<and> redis (snd (add_post_route e tok body now s)) = redis s
   \<and> redis (snd (delete_post pid user s)) = redis s
   \<and> redis (snd (delete_post_route e tok pid now s)) = redis s"
proof (intro conjI allI impI)
  assume "redis_get (redis s) (''post_user'' @ str_int (cu_id u)) now = None"
  then show "snd (get_posts (Some u) now s)
        = s\<lparr>redis := (redis s)(''post_user'' @ str_int (cu_id u)
                 \<mapsto> (JsonText (JList (map (\<lambda>c. JObject [(''id'', JInt (post_id c)),
                                                              (''name'', JStr (post_text c))])
                                          (posts s))),
                     now + 5))\<rparr>"
    by (simp add: get_posts_def Let_def cache_key_def redis_set_def json_dumps_def posts_data_def)
next
  fix v assume "redis_get (redis s) (''post_user'' @ str_int (cu_id u)) now = Some v" "str_truthy v"
  then show "snd (get_posts (Some u) now s) = s"
    by (simp add: get_posts_def Let_def cache_key_def split: sum.splits)
next
  fix v t
  show "redis_get ((redis s)(''post_user'' @ str_int (cu_id u) \<mapsto> (v, now + 5)))
               (''post_user'' @ str_int (cu_id u)) t
          = (if t < now + 5 then Some v else None)"
    by (simp add: redis_get_def)
next
  fix i show "decimal_int (str_int i) = i" by (rule decimal_int_str_int)
next
  fix i j assume "''post_user'' @ str_int i = ''post_user'' @ str_int j"
  then have "str_int i = str_int j" by simp
  then show "i = j" by (rule str_int_inject)
next
  show "redis (snd (add_post e pd user s)) = redis s" by (rule redis_add_post)
  show "redis (snd (add_post_route e tok body now s)) = redis s" by (rule redis_add_post_route)
  show "redis (snd (delete_post pid user s)) = redis s" by (rule redis_delete_post)
  show "redis (snd (delete_post_route e tok pid now s)) = redis s" by (rule redis_delete_post_route)
qed

text \<open>
  C8 on a miss in a store with the posts of two users: the entry under \<open>post_user1\<close> lists the
  posts of both, while the answer holds the caller's two posts only; and on a hit at the concrete
  run, which changes nothing.
\<close>

theorem get_posts_cache_entry_witness:
  "redis_get (redis two_user_state) (''post_user'' @ str_int (cu_id example_user)) 10 = None
   \<and> snd (get_posts (Some example_user) 10 two_user_state)
       = two_user_state\<lparr>redis := Map.empty(''post_user1''
            \<mapsto> (JsonText (JList [JObject [(''id'', JInt 1), (''name'', JStr [104, 105])],
                                  JObject [(''id'', JInt 2), (''name'', JStr [121, 111])],
                                  JObject [(''id'', JInt 3), (''name'', JStr [111, 107])]]),
                15))\<rparr>
   \<and> fst (get_posts (Some example_user) 10 two_user_state)
       = Inr [\<lparr>post_id = 1, post_text = [104, 105], post_user_id = 1\<rparr>,
              \<lparr>post_id = 3, post_text = [111, 107], post_user_id = 1\<rparr>]
   \<and> redis_get (redis example_state) (''post_user'' @ str_int (cu_id example_user)) 11
       = Some (JsonText (JList [JObject [(''id'', JInt 1), (''name'', JStr [104, 105])]]))
   \<and> snd (get_posts (Some example_user) 11 example_state) = example_state
   \<and> ''post_user'' @ str_int 42 = ''post_user42''
   \<and> ''post_user'' @ str_int (- 7) = ''post_user-7''"
proof -
  have k1: "str_int 1 = ''1''"
    by code_simp
  have k42: "str_int 42 = ''42''"
    by code_simp
  have k7: "str_int (- 7) = ''-7''"
    by code_simp
  have m: "redis_get (redis two_user_state) (''post_user'' @ str_int (cu_id example_user)) 10 = None"
    by (simp add: two_user_state_def redis_get_def)
  have h: "redis_get (redis example_state) (''post_user'' @ str_int (cu_id example_user)) 11
       = Some (JsonText (JList [JObject [(''id'', JInt 1), (''name'', JStr [104, 105])]]))"
    by (simp add: example_state_eq redis_get_def cache_key_def example_user_def)
  have t: "str_truthy (JsonText (JList [JObject [(''id'', JInt 1), (''name'', JStr [104, 105])]]))"
    by (simp add: str_truthy_def)
  from get_posts_cache_entry[of two_user_state example_user 10] m
  have "snd (get_posts (Some example_user) 10 two_user_state)
        = two_user_state\<lparr>redis := (redis two_user_state)(''post_user'' @ str_int (cu_id example_user)
                 \<mapsto> (JsonText (JList (map (\<lambda>c. JObject [(''id'', JInt (post_id c)),
                                                              (''name'', JStr (post_text c))])
                                          (posts two_user_state))),
                     10 + 5))\<rparr>"
    by blast
  then have 1: "snd (get_posts (Some example_user) 10 two_user_state)
       = two_user_state\<lparr>redis := Map.empty(''post_user1''
            \<mapsto> (JsonText (JList [JObject [(''id'', JInt 1), (''name'', JStr [104, 105])],
                                  JObject [(''id'', JInt 2), (''name'', JStr [121, 111])],
                                  JObject [(''id'', JInt 3), (''name'', JStr [111, 107])]]),
                15))\<rparr>"
    by (simp add: two_user_state_def example_user_def k1)
  have 2: "fst (get_posts (Some example_user) 10 two_user_state)
       = Inr [\<lparr>post_id = 1, post_text = [104, 105], post_user_id = 1\<rparr>,
              \<lparr>post_id = 3, post_text = [111, 107], post_user_id = 1\<rparr>]"
    using m by (simp add: get_posts_def Let_def cache_key_def two_user_state_def example_user_def)
  from get_posts_cache_entry[of example_state example_user 11] h t
  have 3: "snd (get_posts (Some example_user) 11 example_state) = example_state"
    by blast
  from m 1 2 h 3 k42 k7 show ?thesis by simp
qed

text \<open>
  Claim C9. The token that \<open>register_user\<close> or \<open>login_user\<close> returns carries the user's
  email as \<open>sub\<close>, the user's id as \<open>id\<close> and the time of issue plus 20 minutes as \<open>exp\<close>,
  and nothing extends it: after that time it is refused.
\<close>

theorem issued_token_payload:
  "(\<forall>r s'. register_user e d salt now s = (Inr r, s') \<longrightarrow>
       access_token r = jwt_encode (hmac_digest e) \<lparr>claim_sub = Some (reg_email d), claim_id = Some (user_seq s),
                                     claim_exp = Some (now + 20 * 60)\<rparr> (SECRET_KEY e) (ALGORITHM e)
     \<and> (\<exists>u \<in> set (users s'). user_email u = reg_email d \<and> user_id u = user_seq s)
     \<and> (\<forall>t. now + 20 * 60 < t \<longrightarrow> get_current_user e (access_token r) t
              = Inl (HTTPException HTTP_401_UNAUTHORIZED ''Token expired'')))
   \<and> (\<forall>r s'. login_user e d' now s = (Inr r, s') \<longrightarrow>
       (\<exists>u \<in> set (users s). user_email u = login_email d'
          \<and> access_token r = jwt_encode (hmac_digest e) \<lparr>claim_sub = Some (user_email u), claim_id = Some (user_id u),
                                     claim_exp = Some (now + 20 * 60)\<rparr> (SECRET_KEY e) (ALGORITHM e))
     \<and> (\<forall>t. now + 20 * 60 < t \<longrightarrow> get_current_user e (access_token r) t
              = Inl (HTTPException HTTP_401_UNAUTHORIZED ''Token expired'')))"
proof (intro conjI allI impI)
  fix r s' assume a: "register_user e d salt now s = (Inr r, s')"
  then have tok: "access_token r = jwt_encode (hmac_digest e) \<lparr>claim_sub = Some (reg_email d), claim_id = Some (user_seq s),
                                     claim_exp = Some (now + 20 * 60)\<rparr> (SECRET_KEY e) (ALGORITHM e)"
    by (auto simp: register_user_def insert_user_def Let_def create_access_token_Some timedelta_minutes_def
        split: if_splits sum.splits prod.splits)
  show "access_token r = jwt_encode (hmac_digest e) \<lparr>claim_sub = Some (reg_email d), claim_id = Some (user_seq s),
                                     claim_exp = Some (now + 20 * 60)\<rparr> (SECRET_KEY e) (ALGORITHM e)"
    by (rule tok)
  from a show "\<exists>u \<in> set (users s'). user_email u = reg_email d \<and> user_id u = user_seq s"
    by (auto simp: register_user_def insert_user_def Let_def split: if_splits sum.splits prod.splits)
  fix t :: int assume "now + 20 * 60 < t"
  then show "get_current_user e (access_token r) t = Inl (HTTPException HTTP_401_UNAUTHORIZED ''Token expired'')"
    unfolding tok by (rule get_current_user_expired)
next
  fix r s' assume a: "login_user e d' now s = (Inr r, s')"
  then obtain u where au: "authenticate_user e (login_email d') (login_password d') s = Some u"
    by (auto simp: login_user_def split: option.splits)
  then have f: "find (\<lambda>u. user_email u = login_email d') (users s) = Some u"
    by (auto simp: authenticate_user_def split: option.splits if_splits)
  from a au have tok: "access_token r = jwt_encode (hmac_digest e) \<lparr>claim_sub = Some (user_email u), claim_id = Some (user_id u),
                                     claim_exp = Some (now + 20 * 60)\<rparr> (SECRET_KEY e) (ALGORITHM e)"
    by (auto simp: login_user_def create_access_token_Some timedelta_minutes_def)
  from find_SomeD[OF f] tok
  show "\<exists>u \<in> set (users s). user_email u = login_email d'
          \<and> access_token r = jwt_encode (hmac_digest e) \<lparr>claim_sub = Some (user_email u), claim_id = Some (user_id u),
                                     claim_exp = Some (now + 20 * 60)\<rparr> (SECRET_KEY e) (ALGORITHM e)"
    by blast
  fix t :: int assume "now + 20 * 60 < t"
  then show "get_current_user e (access_token r) t = Inl (HTTPException HTTP_401_UNAUTHORIZED ''Token expired'')"
    unfolding tok by (rule get_current_user_expired)
qed

text \<open>
  C9 for a registration at second 0 and a login at second 30.
\<close>

theorem issued_token_payload_witness:
  "(\<exists>s'. register_user example_env \<lparr>reg_email = [97, 64, 120], reg_password = [112, 119]\<rparr> [115] 0
             init_state = (Inr \<lparr>access_token = example_token, token_type = ''bearer''\<rparr>, s'))
   \<and> (\<exists>r. login_user example_env \<lparr>login_email = [97, 64, 120], login_password = [112, 119]\<rparr> 30
             example_state = (Inr r, example_state)
          \<and> access_token r = jwt_encode (hmac_digest example_env) \<lparr>claim_sub = Some [97, 64, 120], claim_id = Some 1,
                                     claim_exp = Some 1230\<rparr> ''secret'' ''HS256''
          \<and> get_current_user example_env (access_token r) 1231
              = Inl (HTTPException HTTP_401_UNAUTHORIZED ''Token expired''))"
proof -
  obtain r s' where
    r: "register_user example_env \<lparr>reg_email = [97, 64, 120], reg_password = [112, 119]\<rparr> [115] 0
          init_state = (Inr r, s')"
    by (simp add: register_user_def insert_user_def fits_String_255_def create_access_token_def
        timedelta_minutes_def init_state_def Let_def example_env_def)
  obtain r2 where
    l: "login_user example_env \<lparr>login_email = [97, 64, 120], login_password = [112, 119]\<rparr> 30
          example_state = (Inr r2, example_state)"
    by (simp add: login_user_def authenticate_user_def example_state_eq create_access_token_def
        timedelta_minutes_def Let_def example_env_def)
  have u: "users example_state
             = [\<lparr>user_id = 1, user_email = [97, 64, 120], user_password_hash = [115, 119, 112]\<rparr>]"
    by (simp add: example_state_eq)
  from issued_token_payload[of example_env "\<lparr>reg_email = [97, 64, 120], reg_password = [112, 119]\<rparr>"
      "[115]" 0 init_state] r
  have "access_token r = example_token"
    by (simp add: example_token_def example_env_def init_state_def)
  moreover from r have "token_type r = ''bearer''"
    by (auto simp: register_user_def split: if_splits sum.splits prod.splits)
  ultimately have "r = \<lparr>access_token = example_token, token_type = ''bearer''\<rparr>" by simp
  with r have 1: "\<exists>s'. register_user example_env \<lparr>reg_email = [97, 64, 120], reg_password = [112, 119]\<rparr> [115] 0
             init_state = (Inr \<lparr>access_token = example_token, token_type = ''bearer''\<rparr>, s')"
    by blast
  from issued_token_payload[of example_env _ _ 30 example_state
      "\<lparr>login_email = [97, 64, 120], login_password = [112, 119]\<rparr>"] l
  have A: "(\<exists>u \<in> set (users example_state). user_email u = [97, 64, 120]
          \<and> access_token r2 = jwt_encode (hmac_digest example_env) \<lparr>claim_sub = Some (user_email u), claim_id = Some (user_id u),
                                     claim_exp = Some (30 + 20 * 60)\<rparr>
                                  (SECRET_KEY example_env) (ALGORITHM example_env))"
    and B: "\<forall>t. 30 + 20 * 60 < t \<longrightarrow> get_current_user example_env (access_token r2) t
              = Inl (HTTPException HTTP_401_UNAUTHORIZED ''Token expired'')"
    by simp_all
  from A u have 2: "access_token r2 = jwt_encode (hmac_digest example_env) \<lparr>claim_sub = Some [97, 64, 120], claim_id = Some 1,
                                     claim_exp = Some 1230\<rparr> ''secret'' ''HS256''"
    by (simp add: example_env_def)
  from B have 3: "get_current_user example_env (access_token r2) 1231
              = Inl (HTTPException HTTP_401_UNAUTHORIZED ''Token expired'')"
    by simp
  from 1 l 2 3 show ?thesis by blast
qed

end
